theory Spec2Isabelle
  imports Main "HOL-Library.Product_Lexorder"
begin

section \<open>The tag container and format-detection core of mutagen\<close>

text \<open>
  A shallow embedding of \<^verbatim>\<open>src/mutagen/__init__.py\<close>: the dict-like wrapper
  \<^verbatim>\<open>FileType\<close> around an optional tag container and the dispatcher \<^verbatim>\<open>File\<close>
  that scores every candidate format and opens the file with the best one.

  Exceptions are values of type \<open>error\<close>; a function that may raise returns
  \<open>error + 'a\<close> with \<open>Inl\<close> for the exception. Warnings are collected in a list:
  \<^verbatim>\<open>warnings.warn\<close> is taken with the interpreter's default filter, under which it
  records the warning and returns.
\<close>

datatype error =
    IOError string
  | KeyError string
  | ValueError string
  | AttributeError string
  | TypeError string
  | NotImplementedError
  | FormatError string

datatype warning = DeprecationWarning string

text \<open>The file system, as far as this module looks at it: the bytes stored under a path.\<close>

type_synonym filesystem = "string \<rightharpoonup> string"

subsection \<open>Metadata: a dict\<close>

text \<open>
  \<^verbatim>\<open>class Metadata(dict)\<close> inherits item access from \<^verbatim>\<open>dict\<close>. The contents are an
  association list with one entry per key; \<^verbatim>\<open>keys()\<close> lists the keys in the order of
  the entries. \<^verbatim>\<open>load\<close>, \<^verbatim>\<open>save\<close> and \<^verbatim>\<open>delete\<close> raise
  \<^verbatim>\<open>NotImplementedError\<close> in \<^verbatim>\<open>Metadata\<close> itself and are supplied by each format.
\<close>

type_synonym 'v Metadata = "(string \<times> 'v) list"

definition dict_getitem :: "'v Metadata \<Rightarrow> string \<Rightarrow> error + 'v" where
  "dict_getitem d key = (case map_of d key of None \<Rightarrow> Inl (KeyError key) | Some v \<Rightarrow> Inr v)"

fun dict_setitem :: "'v Metadata \<Rightarrow> string \<Rightarrow> 'v \<Rightarrow> 'v Metadata" where
  "dict_setitem [] key v = [(key, v)]"
| "dict_setitem ((k, w) # d) key v =
     (if k = key then (k, v) # d else (k, w) # dict_setitem d key v)"

definition dict_delitem :: "'v Metadata \<Rightarrow> string \<Rightarrow> error + 'v Metadata" where
  "dict_delitem d key =
     (case map_of d key of
        None \<Rightarrow> Inl (KeyError key)
      | Some v \<Rightarrow> Inr (filter (\<lambda>kv. fst kv \<noteq> key) d))"

definition dict_keys :: "'v Metadata \<Rightarrow> string list" where
  "dict_keys d = map fst d"

definition Metadata_save :: "'v Metadata \<Rightarrow> string \<Rightarrow> filesystem \<Rightarrow> error option \<times> filesystem" where
  "Metadata_save d fname fs = (Some NotImplementedError, fs)"

subsection \<open>FileType\<close>

text \<open>
  An object of class \<^verbatim>\<open>FileType\<close>. The class attributes \<^verbatim>\<open>info = None\<close> and
  \<^verbatim>\<open>tags = None\<close> are what an instance shows until \<^verbatim>\<open>load\<close> assigns them. The class
  declares no attribute \<^verbatim>\<open>filename\<close>: it exists only once \<^verbatim>\<open>load\<close> has stored it, so
  \<open>filename = None\<close> stands for an object without that attribute.
\<close>

record ('v, 'n) FileType =
  info :: "'n option"
  tags :: "'v Metadata option"
  filename :: "string option"

text \<open>
  What a concrete format (a subclass, defined outside this module) supplies: \<^verbatim>\<open>load\<close>,
  optionally \<^verbatim>\<open>add_tags\<close> (the base class has none), the \<^verbatim>\<open>save\<close> of its tag
  container, optionally the \<^verbatim>\<open>pprint\<close> of its tag container (\<^verbatim>\<open>Metadata\<close> has none),
  and the \<^verbatim>\<open>pprint\<close> of its stream information.
\<close>

record ('v, 'n) format =
  load :: "('v, 'n) FileType \<Rightarrow> string \<Rightarrow> filesystem \<Rightarrow> error + ('v, 'n) FileType"
  add_tags :: "(('v, 'n) FileType \<Rightarrow> error + ('v, 'n) FileType) option"
  tags_save :: "'v Metadata \<Rightarrow> string \<Rightarrow> filesystem \<Rightarrow> error option \<times> filesystem"
  tags_pprint :: "('v Metadata \<Rightarrow> error + string) option"
  info_pprint :: "'n \<Rightarrow> error + string"

text \<open>The abstract base class itself: \<^verbatim>\<open>load\<close> raises, there is no \<^verbatim>\<open>add_tags\<close>.\<close>

definition FileType_base :: "('n \<Rightarrow> error + string) \<Rightarrow> ('v, 'n) format" where
  "FileType_base ip =
     \<lparr>load = (\<lambda>self fname fs. Inl NotImplementedError),
      add_tags = None,
      tags_save = Metadata_save,
      tags_pprint = None,
      info_pprint = ip\<rparr>"

definition FileType_new :: "('v, 'n) FileType" where
  "FileType_new = \<lparr>info = None, tags = None, filename = None\<rparr>"

text \<open>\<^verbatim>\<open>FileType.__init__(self, filename=None)\<close>: the object and the warnings emitted.\<close>

definition FileType_init ::
  "('v, 'n) format \<Rightarrow> string option \<Rightarrow> filesystem \<Rightarrow> (error + ('v, 'n) FileType) \<times> warning list" where
  "FileType_init fmt fname fs =
     (case fname of
        None \<Rightarrow> (Inr FileType_new,
                 [DeprecationWarning ''FileType constructor requires a filename''])
      | Some p \<Rightarrow> (load fmt FileType_new p fs, []))"

text \<open>\<^verbatim>\<open>FileType.__getitem__\<close>\<close>

definition FileType_getitem :: "('v, 'n) FileType \<Rightarrow> string \<Rightarrow> error + 'v" where
  "FileType_getitem self key =
     (case tags self of None \<Rightarrow> Inl (KeyError key) | Some d \<Rightarrow> dict_getitem d key)"

text \<open>
  \<^verbatim>\<open>FileType.__setitem__\<close>: \<^verbatim>\<open>self.add_tags()\<close> when there are no tags, then
  \<^verbatim>\<open>self.tags[key] = value\<close>, which fails on \<^verbatim>\<open>None\<close> if \<^verbatim>\<open>add_tags\<close> left it so.
\<close>

definition tags_setitem :: "('v, 'n) FileType \<Rightarrow> string \<Rightarrow> 'v \<Rightarrow> error + ('v, 'n) FileType" where
  "tags_setitem self key v =
     (case tags self of
        None \<Rightarrow> Inl (TypeError ''NoneType object does not support item assignment'')
      | Some d \<Rightarrow> Inr (self\<lparr>tags := Some (dict_setitem d key v)\<rparr>))"

definition FileType_setitem ::
  "('v, 'n) format \<Rightarrow> ('v, 'n) FileType \<Rightarrow> string \<Rightarrow> 'v \<Rightarrow> error + ('v, 'n) FileType" where
  "FileType_setitem fmt self key v =
     (case tags self of
        None \<Rightarrow>
          (case add_tags fmt of
             None \<Rightarrow> Inl (AttributeError ''add_tags'')
           | Some mk \<Rightarrow>
               (case mk self of
                  Inl e \<Rightarrow> Inl e
                | Inr self' \<Rightarrow> tags_setitem self' key v))
      | Some d \<Rightarrow> tags_setitem self key v)"

text \<open>\<^verbatim>\<open>FileType.__delitem__\<close>\<close>

definition FileType_delitem :: "('v, 'n) FileType \<Rightarrow> string \<Rightarrow> error + ('v, 'n) FileType" where
  "FileType_delitem self key =
     (case tags self of
        None \<Rightarrow> Inl (KeyError key)
      | Some d \<Rightarrow>
          (case dict_delitem d key of
             Inl e \<Rightarrow> Inl e
           | Inr d' \<Rightarrow> Inr (self\<lparr>tags := Some d'\<rparr>)))"

text \<open>\<^verbatim>\<open>FileType.keys\<close>\<close>

definition FileType_keys :: "('v, 'n) FileType \<Rightarrow> error + string list" where
  "FileType_keys self = (case tags self of None \<Rightarrow> Inr [] | Some d \<Rightarrow> Inr (dict_keys d))"

text \<open>
  \<^verbatim>\<open>FileType.save(self, filename=None)\<close>: the exception raised if any, the file system
  afterwards and the warnings emitted. The file name is settled first (reading
  \<^verbatim>\<open>self.filename\<close> raises \<^verbatim>\<open>AttributeError\<close> on an object that has none), the tags
  are looked at second.
\<close>

definition FileType_save ::
  "('v, 'n) format \<Rightarrow> ('v, 'n) FileType \<Rightarrow> string option \<Rightarrow> filesystem
     \<Rightarrow> error option \<times> filesystem \<times> warning list" where
  "FileType_save fmt self fname fs =
     (case (case fname of
              None \<Rightarrow> (case filename self of
                          None \<Rightarrow> Inl (AttributeError ''filename'')
                        | Some p \<Rightarrow> Inr (p, []))
            | Some p \<Rightarrow>
                Inr (p, [DeprecationWarning
                           ''save(filename=...) is deprecated, reload the file''])) of
        Inl e \<Rightarrow> (Some e, fs, [])
      | Inr (p, ws) \<Rightarrow>
          (case tags self of
             Some d \<Rightarrow> (let (r, fs') = tags_save fmt d p fs in (r, fs', ws))
           | None \<Rightarrow> (Some (ValueError ''no tags in file''), fs, ws)))"

text \<open>
  \<^verbatim>\<open>FileType.pprint\<close>: \<^verbatim>\<open>self.info.pprint()\<close> is outside the \<^verbatim>\<open>try\<close>; an
  \<^verbatim>\<open>AttributeError\<close> from \<^verbatim>\<open>self.tags.pprint()\<close> (no tags, no such method, or raised
  inside it) gives the stream summary alone.
\<close>

definition FileType_pprint :: "('v, 'n) format \<Rightarrow> ('v, 'n) FileType \<Rightarrow> error + string" where
  "FileType_pprint fmt self =
     (case info self of
        None \<Rightarrow> Inl (AttributeError ''pprint'')
      | Some i \<Rightarrow>
          (case info_pprint fmt i of
             Inl e \<Rightarrow> Inl e
           | Inr stream \<Rightarrow>
               (case tags self of
                  None \<Rightarrow> Inr stream
                | Some d \<Rightarrow>
                    (case tags_pprint fmt of
                       None \<Rightarrow> Inr stream
                     | Some pp \<Rightarrow>
                         (case pp d of
                            Inl (AttributeError a) \<Rightarrow> Inr stream
                          | Inl e \<Rightarrow> Inl e
                          | Inr t \<Rightarrow>
                              Inr (stream @ (if t \<noteq> [] then [CHR 0x0A] @ t else [])))))))"

subsection \<open>File objects\<close>

text \<open>
  The object returned by \<^verbatim>\<open>file(filename, "rb")\<close>: the bytes of the file, the read
  position and whether it has been closed.
\<close>

record fileobj =
  fo_data :: string
  fo_pos :: nat
  fo_closed :: bool

definition file_open :: "filesystem \<Rightarrow> string \<Rightarrow> error + fileobj" where
  "file_open fs p =
     (case fs p of
        None \<Rightarrow> Inl (IOError p)
      | Some d \<Rightarrow> Inr \<lparr>fo_data = d, fo_pos = 0, fo_closed = False\<rparr>)"

definition fo_read :: "nat \<Rightarrow> fileobj \<Rightarrow> (error + string) \<times> fileobj" where
  "fo_read n f =
     (if fo_closed f then (Inl (ValueError ''I/O operation on closed file''), f)
      else (Inr (take n (drop (fo_pos f) (fo_data f))),
            f\<lparr>fo_pos := min (length (fo_data f)) (fo_pos f + n)\<rparr>))"

definition fo_close :: "fileobj \<Rightarrow> fileobj" where
  "fo_close f = f\<lparr>fo_closed := True\<rparr>"

subsection \<open>File: guess the type of a file and open it\<close>

text \<open>
  A candidate class \<^verbatim>\<open>Kind\<close>. \<open>kid\<close> is the class object's place in the order in which
  Python 2 compares two class objects that define no comparison of their own (their
  addresses); \<open>score\<close> is \<^verbatim>\<open>Kind.score(filename, fileobj, header)\<close>, which may read
  from the file object it is handed; \<open>construct\<close> is \<^verbatim>\<open>Kind(filename)\<close>.
\<close>

record 'i kind =
  kid :: nat
  score :: "string \<Rightarrow> fileobj \<Rightarrow> string \<Rightarrow> (error + int) \<times> fileobj"
  construct :: "string \<Rightarrow> filesystem \<Rightarrow> error + 'i"

text \<open>The list comprehension \<^verbatim>\<open>[Kind.score(filename, fileobj, header) for Kind in options]\<close>.\<close>

fun score_all ::
  "string \<Rightarrow> string \<Rightarrow> 'i kind list \<Rightarrow> fileobj \<Rightarrow> (error + int list) \<times> fileobj" where
  "score_all fname header [] f = (Inr [], f)"
| "score_all fname header (K # Ks) f =
     (case score K fname f header of
        (Inl e, f') \<Rightarrow> (Inl e, f')
      | (Inr s, f') \<Rightarrow>
          (case score_all fname header Ks f' of
             (Inl e, f'') \<Rightarrow> (Inl e, f'')
           | (Inr ss, f'') \<Rightarrow> (Inr (s # ss), f'')))"

text \<open>The \<^verbatim>\<open>try ... finally\<close> block: read the header, score, and close in any case.\<close>

definition File_try ::
  "string \<Rightarrow> 'i kind list \<Rightarrow> fileobj \<Rightarrow> (error + int list) \<times> fileobj" where
  "File_try fname options fileobj =
     (case fo_read 128 fileobj of
        (Inl e, f1) \<Rightarrow> (Inl e, fo_close f1)
      | (Inr header, f1) \<Rightarrow>
          (let (results, f2) = score_all fname header options f1
           in (results, fo_close f2)))"

text \<open>
  \<^verbatim>\<open>results = zip(results, options); results.sort(); score, Kind = results[-1]\<close>.
  The pairs are tuples, compared first by score and then by the class object, and the
  sort is stable.
\<close>

definition File_pick :: "int list \<Rightarrow> 'i kind list \<Rightarrow> int \<times> 'i kind" where
  "File_pick results options =
     last (sort_key (\<lambda>(s, K). (s, kid K)) (zip results options))"

text \<open>
  \<^verbatim>\<open>return Kind(filename)\<close>: the instance made by the constructor, or the exception it
  raises.
\<close>

definition Kind_return :: "'i kind \<Rightarrow> string \<Rightarrow> filesystem \<Rightarrow> error + 'i option" where
  "Kind_return Kind fname fs =
     (case construct Kind fname fs of Inl e \<Rightarrow> Inl e | Inr x \<Rightarrow> Inr (Some x))"

text \<open>
  \<^verbatim>\<open>File(filename, options=None)\<close>; \<open>defaults\<close> is the list of the eleven format
  classes imported when \<^verbatim>\<open>options\<close> is \<^verbatim>\<open>None\<close>.
\<close>

definition File ::
  "'i kind list \<Rightarrow> filesystem \<Rightarrow> string \<Rightarrow> 'i kind list option \<Rightarrow> error + 'i option" where
  "File defaults fs fname opts =
     (let options = (case opts of None \<Rightarrow> defaults | Some os \<Rightarrow> os) in
      if options = [] then Inr None
      else
        (case file_open fs fname of
           Inl e \<Rightarrow> Inl e
         | Inr fileobj \<Rightarrow>
             (case fst (File_try fname options fileobj) of
                Inl e \<Rightarrow> Inl e
              | Inr results \<Rightarrow>
                  (let (s, Kind) = File_pick results options in
                   if s > 0 then Kind_return Kind fname fs else Inr None))))"

subsection \<open>Concrete formats and candidates\<close>

text \<open>
  A small concrete format, used to run the functions above: \<^verbatim>\<open>add_tags\<close> installs an
  empty tag container, \<^verbatim>\<open>save\<close> writes one \<^verbatim>\<open>key=value\<close> line per tag, the tag
  summary lists \<^verbatim>\<open>key=value\<close> and the stream summary is \<^verbatim>\<open>S\<close>.
\<close>

definition lazy_format :: "(string, unit) format" where
  "lazy_format =
     \<lparr>load = (\<lambda>self fname fs. Inl NotImplementedError),
      add_tags = Some (\<lambda>self. Inr (self\<lparr>tags := Some []\<rparr>)),
      tags_save =
        (\<lambda>d p fs. (None, fs(p \<mapsto> concat (map (\<lambda>(k, v). k @ ''='' @ v @ [CHR 0x0A]) d)))),
      tags_pprint = Some (\<lambda>d. Inr (concat (map (\<lambda>(k, v). k @ ''='' @ v) d))),
      info_pprint = (\<lambda>u. Inr ''S'')\<rparr>"

text \<open>
  The two summaries with an empty line between them, as the specification words the
  result of \<^verbatim>\<open>pprint\<close>.
\<close>

definition pprint_blank_line :: "string \<Rightarrow> string \<Rightarrow> string" where
  "pprint_blank_line stream t = stream @ [CHR 0x0A, CHR 0x0A] @ t"

text \<open>
  A candidate whose score is the constant \<open>s\<close> and whose instances are the string
  \<open>name\<close>, and a candidate that reads one more byte from the file object it is
  handed and scores 1 if there was one.
\<close>

definition const_kind :: "nat \<Rightarrow> int \<Rightarrow> string \<Rightarrow> string kind" where
  "const_kind n s name =
     \<lparr>kid = n,
      score = (\<lambda>fname f header. (Inr s, f)),
      construct = (\<lambda>fname fs. Inr name)\<rparr>"


text \<open>
  A format whose \<^verbatim>\<open>add_tags\<close> installs a tag container that already holds one entry,
  and a candidate whose constructor reads the file: its instance is the path, a colon and
  the bytes of the file.
\<close>

definition stamp_format :: "(string, unit) format" where
  "stamp_format =
     \<lparr>load = (\<lambda>self fname fs. Inl NotImplementedError),
      add_tags = Some (\<lambda>self. Inr (self\<lparr>tags := Some [(''encoder'', ''mutagen'')]\<rparr>)),
      tags_save = Metadata_save,
      tags_pprint = None,
      info_pprint = (\<lambda>u. Inr ''S'')\<rparr>"

definition echo_kind :: "nat \<Rightarrow> int \<Rightarrow> string kind" where
  "echo_kind n s =
     \<lparr>kid = n,
      score = (\<lambda>fname f header. (Inr s, f)),
      construct = (\<lambda>fname fs. case fs fname of
                                 None \<Rightarrow> Inl (IOError fname)
                               | Some d \<Rightarrow> Inr (fname @ '':'' @ d))\<rparr>"

text \<open>A file system holding the single file \<^verbatim>\<open>f\<close> with the bytes \<open>d\<close>.\<close>

definition fs_f :: "string \<Rightarrow> filesystem" where
  "fs_f d = [''f'' \<mapsto> d]"

section \<open>Properties\<close>

subsection \<open>The dict interface of FileType\<close>

lemma map_of_dict_setitem: "map_of (dict_setitem d key v) key = Some v"
  by (induction d key v rule: dict_setitem.induct) auto

lemma dict_getitem_setitem: "dict_getitem (dict_setitem d key v) key = Inr v"
  by (simp add: dict_getitem_def map_of_dict_setitem)

text \<open>
  C7: on a file without tags both \<^verbatim>\<open>__getitem__\<close> and \<^verbatim>\<open>__delitem__\<close> raise
  \<^verbatim>\<open>KeyError\<close>, for every key.
\<close>

theorem FileType_no_tags_KeyError:
  assumes "tags self = None"
  shows "FileType_getitem self key = Inl (KeyError key) \<and>
         FileType_delitem self key = Inl (KeyError key)"
  using assms by (simp add: FileType_getitem_def FileType_delitem_def)

theorem FileType_no_tags_KeyError_witness:
  "tags (FileType_new :: (string, unit) FileType) = None \<and>
   FileType_getitem (FileType_new :: (string, unit) FileType) ''title''
     = Inl (KeyError ''title'') \<and>
   FileType_delitem (FileType_new :: (string, unit) FileType) ''title''
     = Inl (KeyError ''title'')"
proof -
  have h: "tags (FileType_new :: (string, unit) FileType) = None"
    by (simp add: FileType_new_def)
  show ?thesis using h FileType_no_tags_KeyError [OF h, of "''title''"] by simp
qed

text \<open>
  C8: \<^verbatim>\<open>keys()\<close> returns the empty list on a file without tags and the keys of the tag
  container otherwise; it raises in neither case.
\<close>

theorem FileType_keys_spec:
  "(tags self = None \<longrightarrow> FileType_keys self = Inr []) \<and>
   (\<forall>d. tags self = Some d \<longrightarrow> FileType_keys self = Inr (dict_keys d))"
  by (simp add: FileType_keys_def)

theorem FileType_keys_spec_witness:
  "tags (FileType_new :: (string, unit) FileType) = None \<and>
   FileType_keys (FileType_new :: (string, unit) FileType) = Inr [] \<and>
   tags (\<lparr>info = None, tags = Some [(''artist'', ''x''), (''title'', ''y'')],
          filename = Some ''a.mp3''\<rparr> :: (string, unit) FileType)
     = Some [(''artist'', ''x''), (''title'', ''y'')] \<and>
   FileType_keys (\<lparr>info = None, tags = Some [(''artist'', ''x''), (''title'', ''y'')],
          filename = Some ''a.mp3''\<rparr> :: (string, unit) FileType)
     = Inr [''artist'', ''title'']"
  using FileType_keys_spec [of "FileType_new :: (string, unit) FileType"]
    FileType_keys_spec [of "\<lparr>info = None, tags = Some [(''artist'', ''x''), (''title'', ''y'')],
          filename = Some ''a.mp3''\<rparr> :: (string, unit) FileType"]
  by (simp add: FileType_new_def dict_keys_def)

text \<open>
  C10: constructing a \<^verbatim>\<open>FileType\<close> without a file name gives an object whose
  \<^verbatim>\<open>info\<close> and \<^verbatim>\<open>tags\<close> are \<^verbatim>\<open>None\<close> and emits one \<^verbatim>\<open>DeprecationWarning\<close>; the
  result is the same for every \<^verbatim>\<open>load\<close> and every file system, so \<^verbatim>\<open>load\<close> is not
  invoked and no file is read.
\<close>

theorem FileType_init_no_filename:
  "FileType_init fmt None fs =
     (Inr \<lparr>info = None, tags = None, filename = None\<rparr>,
      [DeprecationWarning ''FileType constructor requires a filename''])"
  by (simp add: FileType_init_def FileType_new_def)

text \<open>
  C5, as the code has it: on a file without tags \<^verbatim>\<open>__setitem__\<close> calls the format's
  \<^verbatim>\<open>add_tags\<close> first. When the format defines \<^verbatim>\<open>add_tags\<close> and it returns with a
  tag container installed, the object afterwards is the one \<^verbatim>\<open>add_tags\<close> left, with
  the value stored under the key in that container: \<^verbatim>\<open>tags\<close> is not \<^verbatim>\<open>None\<close> and
  \<^verbatim>\<open>__getitem__\<close> of the same key returns the value written.
\<close>

theorem FileType_setitem_creates_tags:
  assumes "tags self = None"
    and "add_tags fmt = Some mk"
    and "mk self = Inr self'"
    and "tags self' = Some d"
  shows "FileType_setitem fmt self key v = Inr (self'\<lparr>tags := Some (dict_setitem d key v)\<rparr>) \<and>
         tags (self'\<lparr>tags := Some (dict_setitem d key v)\<rparr>) \<noteq> None \<and>
         FileType_getitem (self'\<lparr>tags := Some (dict_setitem d key v)\<rparr>) key = Inr v"
  using assms
  by (simp add: FileType_setitem_def tags_setitem_def FileType_getitem_def
      dict_getitem_setitem)

theorem FileType_setitem_creates_tags_witness:
  "tags (FileType_new :: (string, unit) FileType) = None \<and>
   add_tags stamp_format = Some (\<lambda>self. Inr (self\<lparr>tags := Some [(''encoder'', ''mutagen'')]\<rparr>)) \<and>
   FileType_setitem stamp_format FileType_new ''title'' ''x'' =
     Inr \<lparr>info = None, tags = Some [(''encoder'', ''mutagen''), (''title'', ''x'')],
          filename = None\<rparr> \<and>
   FileType_getitem
     (\<lparr>info = None, tags = Some [(''encoder'', ''mutagen''), (''title'', ''x'')],
        filename = None\<rparr> :: (string, unit) FileType)
     ''title'' = Inr ''x''"
proof -
  let ?mk = "\<lambda>self :: (string, unit) FileType. Inr (self\<lparr>tags := Some [(''encoder'', ''mutagen'')]\<rparr>)
               :: error + (string, unit) FileType"
  let ?s' = "\<lparr>info = None, tags = Some [(''encoder'', ''mutagen'')], filename = None\<rparr>
               :: (string, unit) FileType"
  have h1: "tags (FileType_new :: (string, unit) FileType) = None"
    by (simp add: FileType_new_def)
  have h2: "add_tags stamp_format = Some ?mk" by (simp add: stamp_format_def)
  have h3: "?mk FileType_new = Inr ?s'" by (simp add: FileType_new_def)
  have h4: "tags ?s' = Some [(''encoder'', ''mutagen'')]" by simp
  from FileType_setitem_creates_tags [OF h1 h2 h3 h4, of "''title''" "''x''"] h1 h2
  show ?thesis by simp
qed

text \<open>
  \<^verbatim>\<open>FileType\<close> itself defines no \<^verbatim>\<open>add_tags\<close>: on the object made by its constructor
  the write raises \<^verbatim>\<open>AttributeError\<close> and no tag container is created.
\<close>

theorem FileType_setitem_base_class:
  "tags (FileType_new :: (string, unit) FileType) = None \<and>
   FileType_setitem (FileType_base (\<lambda>u. Inr ''S'')) (FileType_new :: (string, unit) FileType)
     ''title'' ''x'' = Inl (AttributeError ''add_tags'')"
  by (simp add: FileType_setitem_def FileType_base_def FileType_new_def)

subsection \<open>save\<close>

text \<open>
  C4, as the code has it: provided a file name is at hand (stored in the object, or
  passed, which adds the deprecation warning), \<^verbatim>\<open>save\<close> on a file without tags raises
  \<^verbatim>\<open>ValueError("no tags in file")\<close> and leaves the file system as it was, and on a
  file with tags it is \<^verbatim>\<open>tags.save\<close> of that name.
\<close>

theorem FileType_save_spec:
  "(\<forall>p. tags self = None \<and> filename self = Some p \<longrightarrow>
      FileType_save fmt self None fs = (Some (ValueError ''no tags in file''), fs, [])) \<and>
   (\<forall>p. tags self = None \<longrightarrow>
      FileType_save fmt self (Some p) fs =
        (Some (ValueError ''no tags in file''), fs,
         [DeprecationWarning ''save(filename=...) is deprecated, reload the file''])) \<and>
   (\<forall>d p. tags self = Some d \<and> filename self = Some p \<longrightarrow>
      FileType_save fmt self None fs =
        (fst (tags_save fmt d p fs), snd (tags_save fmt d p fs), [])) \<and>
   (\<forall>d p. tags self = Some d \<longrightarrow>
      FileType_save fmt self (Some p) fs =
        (fst (tags_save fmt d p fs), snd (tags_save fmt d p fs),
         [DeprecationWarning ''save(filename=...) is deprecated, reload the file'']))"
  by (simp add: FileType_save_def split: prod.splits)

theorem FileType_save_spec_witness:
  "tags (\<lparr>info = None, tags = None, filename = Some ''a.mp3''\<rparr> :: (string, unit) FileType)
     = None \<and>
   FileType_save lazy_format \<lparr>info = None, tags = None, filename = Some ''a.mp3''\<rparr>
       None Map.empty =
     (Some (ValueError ''no tags in file''), Map.empty, []) \<and>
   FileType_save lazy_format \<lparr>info = None, tags = None, filename = None\<rparr>
       (Some ''b.mp3'') Map.empty =
     (Some (ValueError ''no tags in file''), Map.empty,
      [DeprecationWarning ''save(filename=...) is deprecated, reload the file'']) \<and>
   FileType_save lazy_format
       \<lparr>info = None, tags = Some [(''title'', ''x'')], filename = Some ''a.mp3''\<rparr>
       None Map.empty =
     (None, [''a.mp3'' \<mapsto> ''title=x'' @ [CHR 0x0A]], []) \<and>
   FileType_save lazy_format
       \<lparr>info = None, tags = Some [(''title'', ''x'')], filename = Some ''a.mp3''\<rparr>
       (Some ''b.mp3'') Map.empty =
     (None, [''b.mp3'' \<mapsto> ''title=x'' @ [CHR 0x0A]],
      [DeprecationWarning ''save(filename=...) is deprecated, reload the file''])"
  using FileType_save_spec [of "\<lparr>info = None, tags = None, filename = Some ''a.mp3''\<rparr>"
      lazy_format Map.empty]
    FileType_save_spec [of "\<lparr>info = None, tags = None, filename = None\<rparr>"
      lazy_format Map.empty]
    FileType_save_spec [of
      "\<lparr>info = None, tags = Some [(''title'', ''x'')], filename = Some ''a.mp3''\<rparr>"
      lazy_format Map.empty]
  by (simp add: lazy_format_def)

text \<open>
  The object made by the constructor without a file name has no tags and no
  \<^verbatim>\<open>filename\<close> attribute: \<^verbatim>\<open>save()\<close> on it raises \<^verbatim>\<open>AttributeError\<close>, not
  \<^verbatim>\<open>ValueError\<close>.
\<close>

theorem FileType_save_no_filename:
  "tags (FileType_new :: (string, unit) FileType) = None \<and>
   FileType_save lazy_format FileType_new None Map.empty =
     (Some (AttributeError ''filename''), Map.empty, []) \<and>
   fst (FileType_save lazy_format FileType_new None Map.empty)
     \<noteq> Some (ValueError ''no tags in file'')"
  by (simp add: FileType_save_def FileType_new_def)

subsection \<open>pprint\<close>

text \<open>
  C9, as the code has it: when the stream summary is available, \<^verbatim>\<open>pprint\<close> returns
  it alone if there are no tags or the tag container has no \<^verbatim>\<open>pprint\<close>, and otherwise
  appends to it one newline character and the tag summary, or nothing if the tag summary
  is empty.
\<close>

theorem FileType_pprint_spec:
  assumes "info self = Some i" and "info_pprint fmt i = Inr stream"
  shows "(tags self = None \<or> tags_pprint fmt = None \<longrightarrow>
            FileType_pprint fmt self = Inr stream) \<and>
         (\<forall>d pp t. tags self = Some d \<and> tags_pprint fmt = Some pp \<and> pp d = Inr t \<longrightarrow>
            FileType_pprint fmt self =
              Inr (if t = [] then stream else stream @ [CHR 0x0A] @ t))"
  using assms by (auto simp: FileType_pprint_def split: option.splits)

theorem FileType_pprint_spec_witness:
  "info (\<lparr>info = Some (), tags = None, filename = Some ''a.mp3''\<rparr> :: (string, unit) FileType)
     = Some () \<and>
   info_pprint lazy_format () = Inr ''S'' \<and>
   FileType_pprint lazy_format \<lparr>info = Some (), tags = None, filename = Some ''a.mp3''\<rparr>
     = Inr ''S'' \<and>
   FileType_pprint (FileType_base (\<lambda>u. Inr ''S''))
     (\<lparr>info = Some (), tags = Some [(''title'', ''x'')], filename = Some ''a.mp3''\<rparr>
        :: (string, unit) FileType) = Inr ''S'' \<and>
   FileType_pprint lazy_format
     \<lparr>info = Some (), tags = Some [(''title'', ''x'')], filename = Some ''a.mp3''\<rparr>
     = Inr (''S'' @ [CHR 0x0A] @ ''title=x'') \<and>
   FileType_pprint lazy_format \<lparr>info = Some (), tags = Some [], filename = Some ''a.mp3''\<rparr>
     = Inr ''S''"
  using FileType_pprint_spec [of "\<lparr>info = Some (), tags = None, filename = Some ''a.mp3''\<rparr>"
      "()" lazy_format "''S''"]
    FileType_pprint_spec [of
      "\<lparr>info = Some (), tags = Some [(''title'', ''x'')], filename = Some ''a.mp3''\<rparr>" "()"
      "FileType_base (\<lambda>u. Inr ''S'')" "''S''"]
    FileType_pprint_spec [of
      "\<lparr>info = Some (), tags = Some [(''title'', ''x'')], filename = Some ''a.mp3''\<rparr>" "()"
      lazy_format "''S''"]
    FileType_pprint_spec [of "\<lparr>info = Some (), tags = Some [], filename = Some ''a.mp3''\<rparr>"
      "()" lazy_format "''S''"]
  by (simp add: lazy_format_def FileType_base_def)

text \<open>
  Between the stream summary \<^verbatim>\<open>S\<close> and the tag summary \<^verbatim>\<open>title=x\<close> there is one
  newline character, not an empty line.
\<close>

theorem FileType_pprint_one_newline:
  "FileType_pprint lazy_format
     \<lparr>info = Some (), tags = Some [(''title'', ''x'')], filename = Some ''a.mp3''\<rparr>
     = Inr (''S'' @ [CHR 0x0A] @ ''title=x'') \<and>
   FileType_pprint lazy_format
     \<lparr>info = Some (), tags = Some [(''title'', ''x'')], filename = Some ''a.mp3''\<rparr>
     \<noteq> Inr (pprint_blank_line ''S'' ''title=x'')"
  by (simp add: FileType_pprint_def lazy_format_def pprint_blank_line_def)

subsection \<open>File\<close>

lemma sorted_le_last: "sorted xs \<Longrightarrow> x \<in> set xs \<Longrightarrow> x \<le> last xs"
  by (induction xs) auto

lemma last_filter_keep: "xs \<noteq> [] \<Longrightarrow> P (last xs) \<Longrightarrow> last (filter P xs) = last xs"
  by (induction xs rule: rev_induct) simp_all

lemma last_filter_index:
  "filter P xs \<noteq> [] \<Longrightarrow>
   \<exists>i<length xs. last (filter P xs) = xs ! i \<and> P (xs ! i) \<and> (\<forall>j<length xs. P (xs ! j) \<longrightarrow> j \<le> i)"
proof (induction xs rule: rev_induct)
  case Nil
  then show ?case by simp
next
  case (snoc x xs)
  show ?case
  proof (cases "P x")
    case True
    have a: "length xs < length (xs @ [x])" by simp
    have b: "last (filter P (xs @ [x])) = (xs @ [x]) ! length xs" using True by simp
    have c: "P ((xs @ [x]) ! length xs)" using True by simp
    have d: "\<forall>j<length (xs @ [x]). P ((xs @ [x]) ! j) \<longrightarrow> j \<le> length xs" by simp
    from a b c d show ?thesis by blast
  next
    case False
    with snoc.prems have ne: "filter P xs \<noteq> []" by simp
    from snoc.IH [OF ne] obtain i where i: "i < length xs" "last (filter P xs) = xs ! i"
      "P (xs ! i)" "\<forall>j<length xs. P (xs ! j) \<longrightarrow> j \<le> i" by blast
    have a: "i < length (xs @ [x])" using i(1) by simp
    have b: "last (filter P (xs @ [x])) = (xs @ [x]) ! i"
      using False i(1,2) by (simp add: nth_append)
    have c: "P ((xs @ [x]) ! i)" using i(1,3) by (simp add: nth_append)
    have d: "\<forall>j<length (xs @ [x]). P ((xs @ [x]) ! j) \<longrightarrow> j \<le> i"
    proof (intro allI impI)
      fix j assume j: "j < length (xs @ [x])" "P ((xs @ [x]) ! j)"
      show "j \<le> i"
      proof (cases "j < length xs")
        case True
        with j i(4) show ?thesis by (simp add: nth_append)
      next
        case False
        with j have "j = length xs" by simp
        with j \<open>\<not> P x\<close> show ?thesis by simp
      qed
    qed
    from a b c d show ?thesis by blast
  qed
qed

lemma last_sort_key_index:
  fixes f :: "'a \<Rightarrow> 'b::linorder"
  assumes "xs \<noteq> []"
  shows "\<exists>i<length xs. last (sort_key f xs) = xs ! i \<and>
           (\<forall>j<length xs. f (xs ! j) \<le> f (xs ! i)) \<and>
           (\<forall>j<length xs. f (xs ! j) = f (xs ! i) \<longrightarrow> j \<le> i)"
proof -
  let ?ys = "sort_key f xs"
  let ?k = "f (last ?ys)"
  let ?P = "\<lambda>y. f y = ?k"
  have ne: "?ys \<noteq> []" using assms by (metis length_sort length_0_conv)
  have max: "f x \<le> ?k" if "x \<in> set xs" for x
  proof -
    have "f x \<in> set (map f ?ys)" using that by simp
    then have "f x \<le> last (map f ?ys)"
      using sorted_le_last [OF sorted_sort_key] by blast
    then show ?thesis using ne by (simp add: last_map)
  qed
  have "last (filter ?P ?ys) = last ?ys"
    using ne by (rule last_filter_keep) simp
  then have eq: "last (filter ?P xs) = last ?ys"
    by (simp only: sort_key_stable)
  have "last ?ys \<in> set xs" using ne last_in_set [of ?ys] by simp
  then have "filter ?P xs \<noteq> []"
    by (auto simp: filter_empty_conv)
  from last_filter_index [OF this] obtain i where i: "i < length xs"
    "last (filter ?P xs) = xs ! i" "?P (xs ! i)" "\<forall>j<length xs. ?P (xs ! j) \<longrightarrow> j \<le> i"
    by blast
  have "\<forall>j<length xs. f (xs ! j) \<le> f (xs ! i)"
    using max i(3) by simp
  moreover have "\<forall>j<length xs. f (xs ! j) = f (xs ! i) \<longrightarrow> j \<le> i"
    using i(3,4) by simp
  ultimately show ?thesis using i(1,2) eq by auto
qed

lemma score_all_length:
  "score_all fname header options f = (Inr ss, f') \<Longrightarrow> length ss = length options"
proof (induction options arbitrary: f ss f')
  case Nil
  then show ?case by simp
next
  case (Cons K Ks)
  obtain r f1 where s1: "score K fname f header = (r, f1)" by (cases "score K fname f header")
  show ?case
  proof (cases r)
    case (Inl e)
    with s1 Cons.prems show ?thesis by simp
  next
    case (Inr s)
    obtain r2 f2 where s2: "score_all fname header Ks f1 = (r2, f2)"
      by (cases "score_all fname header Ks f1")
    show ?thesis
    proof (cases r2)
      case (Inl e)
      with s1 s2 Inr Cons.prems show ?thesis by simp
    next
      case (Inr ss2)
      with s2 have "length ss2 = length Ks" using Cons.IH by simp
      moreover from s1 s2 \<open>r = Inr s\<close> Inr Cons.prems have "ss = s # ss2" by simp
      ultimately show ?thesis by simp
    qed
  qed
qed

lemma File_try_length:
  assumes "fst (File_try fname options f) = Inr ss"
  shows "length ss = length options"
proof -
  obtain r f1 where rd: "fo_read 128 f = (r, f1)" by (cases "fo_read 128 f")
  show ?thesis
  proof (cases r)
    case (Inl e)
    with rd assms show ?thesis by (simp add: File_try_def)
  next
    case (Inr header)
    obtain r2 f2 where s2: "score_all fname header options f1 = (r2, f2)"
      by (cases "score_all fname header options f1")
    with rd Inr assms have "r2 = Inr ss" by (simp add: File_try_def)
    with s2 show ?thesis by (simp add: score_all_length)
  qed
qed

lemma File_pick_index:
  assumes "length results = length options" and "options \<noteq> []"
  shows "\<exists>i<length options. File_pick results options = (results ! i, options ! i) \<and>
           (\<forall>j<length options. results ! j < results ! i \<or>
               results ! j = results ! i \<and> kid (options ! j) \<le> kid (options ! i)) \<and>
           (\<forall>j<length options. results ! j = results ! i \<and> kid (options ! j) = kid (options ! i)
               \<longrightarrow> j \<le> i)"
proof -
  let ?xs = "zip results options"
  let ?f = "\<lambda>(s, K). (s, kid K)"
  have ne: "?xs \<noteq> []" using assms by (cases results; cases options) auto
  have len: "length ?xs = length options" using assms by simp
  from last_sort_key_index [OF ne, of ?f] obtain i where i: "i < length ?xs"
    "last (sort_key ?f ?xs) = ?xs ! i"
    "\<forall>j<length ?xs. ?f (?xs ! j) \<le> ?f (?xs ! i)"
    "\<forall>j<length ?xs. ?f (?xs ! j) = ?f (?xs ! i) \<longrightarrow> j \<le> i"
    by blast
  have nth: "?xs ! j = (results ! j, options ! j)" if "j < length options" for j
    using that assms by simp
  have il: "i < length options" using i(1) len by simp
  have a: "results ! j < results ! i \<or>
             results ! j = results ! i \<and> kid (options ! j) \<le> kid (options ! i)"
    if "j < length options" for j
  proof -
    from i(3) that len have "?f (?xs ! j) \<le> ?f (?xs ! i)" by simp
    then have "(results ! j, kid (options ! j)) \<le> (results ! i, kid (options ! i))"
      by (simp only: nth [OF that] nth [OF il] prod.case)
    then have "results ! j < results ! i \<or>
                 results ! j \<le> results ! i \<and> kid (options ! j) \<le> kid (options ! i)"
      by (simp only: less_eq_prod_simp)
    then show ?thesis by linarith
  qed
  have b: "j \<le> i"
    if "j < length options" and "results ! j = results ! i"
      and "kid (options ! j) = kid (options ! i)" for j
  proof -
    have "?f (?xs ! j) = ?f (?xs ! i)"
      using that(2,3) by (simp only: nth [OF that(1)] nth [OF il] prod.case)
    with i(4) that(1) len show ?thesis by simp
  qed
  have c: "File_pick results options = (results ! i, options ! i)"
    using i(2) by (simp only: File_pick_def nth [OF il])
  from il a b c show ?thesis by blast
qed

lemma File_pick_Max:
  fixes results :: "int list"
  assumes "length results = length options"
    and "i < length options"
    and "\<forall>j<length options. results ! j < results ! i \<or>
               results ! j = results ! i \<and> kid (options ! j) \<le> kid (options ! i)"
  shows "results ! i = Max (set results)"
proof -
  have "results ! i \<in> set results" using assms by simp
  moreover have "s \<le> results ! i" if "s \<in> set results" for s
  proof -
    from that obtain j where "j < length results" "results ! j = s"
      by (auto simp: in_set_conv_nth)
    with assms(1,3) have "s < results ! i \<or> s = results ! i" by auto
    then show ?thesis by (auto simp: order_less_imp_le)
  qed
  ultimately show ?thesis by (intro Max_eqI [symmetric]) auto
qed

text \<open>The candidate \<^verbatim>\<open>File\<close> settles on, and what it returns.\<close>

lemma File_winner:
  assumes "options = (case opts of None \<Rightarrow> defaults | Some os \<Rightarrow> os)"
    and "options \<noteq> []"
    and "file_open fs fname = Inr fileobj"
    and "fst (File_try fname options fileobj) = Inr results"
  shows "\<exists>i<length options. results ! i = Max (set results) \<and>
           (\<forall>j<length options. results ! j = Max (set results)
               \<longrightarrow> kid (options ! j) \<le> kid (options ! i)) \<and>
           (\<forall>j<length options. results ! j = Max (set results) \<and>
               kid (options ! j) = kid (options ! i) \<longrightarrow> j \<le> i) \<and>
           File defaults fs fname opts =
             (if 0 < Max (set results) then Kind_return (options ! i) fname fs else Inr None)"
proof -
  have len: "length results = length options"
    using assms(4) by (rule File_try_length)
  from File_pick_index [OF len assms(2)] obtain i where i: "i < length options"
    "File_pick results options = (results ! i, options ! i)"
    "\<forall>j<length options. results ! j < results ! i \<or>
        results ! j = results ! i \<and> kid (options ! j) \<le> kid (options ! i)"
    "\<forall>j<length options. results ! j = results ! i \<and> kid (options ! j) = kid (options ! i)
        \<longrightarrow> j \<le> i"
    by blast
  have m: "results ! i = Max (set results)"
    using len i(1) i(3) by (rule File_pick_Max)
  have a: "\<forall>j<length options. results ! j = Max (set results)
             \<longrightarrow> kid (options ! j) \<le> kid (options ! i)"
    using i(3) m by auto
  have b: "\<forall>j<length options. results ! j = Max (set results) \<and>
             kid (options ! j) = kid (options ! i) \<longrightarrow> j \<le> i"
    using i(4) m by simp
  have c: "File defaults fs fname opts =
             (if 0 < Max (set results) then Kind_return (options ! i) fname fs else Inr None)"
    using assms i(2) m by (simp add: File_def)
  from i(1) m a b c show ?thesis by blast
qed

lemma file_open_fs_f: "file_open (fs_f d) ''f'' = Inr \<lparr>fo_data = d, fo_pos = 0, fo_closed = False\<rparr>"
  by (simp add: file_open_def fs_f_def)

lemma File_try_const2:
  "File_try fname [const_kind a s n, const_kind b t m] \<lparr>fo_data = d, fo_pos = 0, fo_closed = False\<rparr>
     = (Inr [s, t], \<lparr>fo_data = d, fo_pos = min (length d) 128, fo_closed = True\<rparr>)"
  by (simp add: File_try_def fo_read_def fo_close_def const_kind_def)

lemma File_pick_const2:
  "File_pick [1, 1] [const_kind 5 1 ''A'', const_kind 3 1 ''B''] = (1, const_kind 5 1 ''A'')"
  by (simp add: File_pick_def const_kind_def)

lemma Kind_return_const: "Kind_return (const_kind a s n) fname fs = Inr (Some n)"
  by (simp add: Kind_return_def const_kind_def)

lemma File_const2_A:
  "File [] (fs_f ''abc'') ''f'' (Some [const_kind 5 1 ''A'', const_kind 3 1 ''B'']) = Inr (Some ''A'')"
  by (simp add: File_def Let_def file_open_fs_f File_try_const2 File_pick_const2 Kind_return_const)

lemma Kind_return_construct:
  "Kind_return K fname fs =
     (case construct K fname fs of Inl e \<Rightarrow> Inl e | Inr x \<Rightarrow> Inr (Some x))"
  by (simp add: Kind_return_def)

text \<open>
  C2: when the file can be opened and every score is computed, \<^verbatim>\<open>File\<close> settles on a
  candidate whose score is the maximum; if that score is positive the result is what the
  candidate's constructor returns for the path (its instance, or the exception it
  raises), and if the maximum is not positive, as when every candidate scored 0, the
  result is \<^verbatim>\<open>None\<close>. A single candidate with a positive score is the one constructed,
  whatever the size of the score.
\<close>

theorem File_max_score:
  assumes "options = (case opts of None \<Rightarrow> defaults | Some os \<Rightarrow> os)"
    and "options \<noteq> []"
    and "file_open fs fname = Inr fileobj"
    and "fst (File_try fname options fileobj) = Inr results"
  shows "(0 < Max (set results) \<longrightarrow>
            (\<exists>i<length options. results ! i = Max (set results) \<and>
               File defaults fs fname opts =
                 (case construct (options ! i) fname fs of
                    Inl e \<Rightarrow> Inl e
                  | Inr x \<Rightarrow> Inr (Some x)))) \<and>
         (Max (set results) \<le> 0 \<longrightarrow> File defaults fs fname opts = Inr None) \<and>
         (\<forall>K. options = [K] \<and> 0 < results ! 0 \<longrightarrow>
            File defaults fs fname opts =
              (case construct K fname fs of Inl e \<Rightarrow> Inl e | Inr x \<Rightarrow> Inr (Some x)))"
proof -
  from File_winner [OF assms] obtain i where i: "i < length options"
    "results ! i = Max (set results)"
    "File defaults fs fname opts =
       (if 0 < Max (set results) then Kind_return (options ! i) fname fs else Inr None)"
    by blast
  have a: "0 < Max (set results) \<longrightarrow>
            (\<exists>i<length options. results ! i = Max (set results) \<and>
               File defaults fs fname opts =
                 (case construct (options ! i) fname fs of
                    Inl e \<Rightarrow> Inl e
                  | Inr x \<Rightarrow> Inr (Some x)))"
    using i by (auto simp: Kind_return_construct)
  have b: "Max (set results) \<le> 0 \<longrightarrow> File defaults fs fname opts = Inr None"
    using i(3) by simp
  have c: "File defaults fs fname opts =
             (case construct K fname fs of Inl e \<Rightarrow> Inl e | Inr x \<Rightarrow> Inr (Some x))"
    if "options = [K]" and "0 < results ! 0" for K
  proof -
    from that(1) i(1) have "i = 0" by simp
    with i(2,3) that show ?thesis by (simp add: Kind_return_construct)
  qed
  from a b c show ?thesis by blast
qed

text \<open>
  C1, as the code has it: the pairs sorted are (score, class), so among the candidates
  with the maximum score the one whose class object is greatest in Python's order of
  class objects is constructed, wherever it stands in the list; the position in the list
  decides only between entries equal in score and in class, where the later one is
  taken.
\<close>

theorem File_tie_break:
  assumes "options = (case opts of None \<Rightarrow> defaults | Some os \<Rightarrow> os)"
    and "options \<noteq> []"
    and "file_open fs fname = Inr fileobj"
    and "fst (File_try fname options fileobj) = Inr results"
    and "0 < Max (set results)"
  shows "\<exists>i<length options. results ! i = Max (set results) \<and>
           (\<forall>j<length options. results ! j = Max (set results)
               \<longrightarrow> kid (options ! j) \<le> kid (options ! i)) \<and>
           (\<forall>j<length options. results ! j = Max (set results) \<and>
               kid (options ! j) = kid (options ! i) \<longrightarrow> j \<le> i) \<and>
           File defaults fs fname opts = Kind_return (options ! i) fname fs"
  using File_winner [OF assms(1-4)] assms(5) by simp

text \<open>
  Two candidates with the same score: the first in the list has the greater class object
  and is the one constructed, not the second.
\<close>

theorem File_tie_break_counterexample:
  "File [] (fs_f ''abc'') ''f'' (Some [const_kind 5 1 ''A'', const_kind 3 1 ''B''])
     = Inr (Some ''A'') \<and>
   Kind_return (const_kind 3 1 ''B'') ''f'' (fs_f ''abc'') = Inr (Some ''B'') \<and>
   File [] (fs_f ''abc'') ''f'' (Some [const_kind 5 1 ''A'', const_kind 3 1 ''B''])
     \<noteq> Kind_return (const_kind 3 1 ''B'') ''f'' (fs_f ''abc'')"
  by (simp add: File_const2_A Kind_return_const)

lemma File_try_const_echo:
  "File_try fname [const_kind a s n, echo_kind b t] \<lparr>fo_data = d, fo_pos = 0, fo_closed = False\<rparr>
     = (Inr [s, t], \<lparr>fo_data = d, fo_pos = min (length d) 128, fo_closed = True\<rparr>)"
  by (simp add: File_try_def fo_read_def fo_close_def const_kind_def echo_kind_def)

lemma File_try_echo:
  "File_try fname [echo_kind b t] \<lparr>fo_data = d, fo_pos = 0, fo_closed = False\<rparr>
     = (Inr [t], \<lparr>fo_data = d, fo_pos = min (length d) 128, fo_closed = True\<rparr>)"
  by (simp add: File_try_def fo_read_def fo_close_def echo_kind_def)

lemma construct_echo: "construct (echo_kind n s) ''f'' (fs_f d) = Inr (''f:'' @ d)"
  by (simp add: echo_kind_def fs_f_def)

theorem File_max_score_witness:
  "file_open (fs_f ''abc'') ''f'' = Inr \<lparr>fo_data = ''abc'', fo_pos = 0, fo_closed = False\<rparr> \<and>
   fst (File_try ''f'' [const_kind 3 0 ''A'', echo_kind 5 2]
          \<lparr>fo_data = ''abc'', fo_pos = 0, fo_closed = False\<rparr>) = Inr [0, 2] \<and>
   File [] (fs_f ''abc'') ''f'' (Some [const_kind 3 0 ''A'', echo_kind 5 2])
     = Inr (Some ''f:abc'') \<and>
   fst (File_try ''f'' [const_kind 3 0 ''A'', echo_kind 5 0]
          \<lparr>fo_data = ''abc'', fo_pos = 0, fo_closed = False\<rparr>) = Inr [0, 0] \<and>
   File [] (fs_f ''abc'') ''f'' (Some [const_kind 3 0 ''A'', echo_kind 5 0])
     = Inr None \<and>
   fst (File_try ''f'' [echo_kind 3 7]
          \<lparr>fo_data = ''abc'', fo_pos = 0, fo_closed = False\<rparr>) = Inr [7] \<and>
   File [] (fs_f ''abc'') ''f'' (Some [echo_kind 3 7]) = Inr (Some ''f:abc'')"
proof -
  let ?f = "\<lparr>fo_data = ''abc'', fo_pos = 0, fo_closed = False\<rparr>"
  let ?os = "[const_kind 3 0 ''A'', echo_kind 5 2]"
  let ?zs = "[const_kind 3 0 ''A'', echo_kind 5 0]"
  have h3: "file_open (fs_f ''abc'') ''f'' = Inr ?f" by (rule file_open_fs_f)
  have a1: "?os = (case Some ?os of None \<Rightarrow> [] | Some os \<Rightarrow> os)" by simp
  have a2: "?os \<noteq> []" by simp
  have a4: "fst (File_try ''f'' ?os ?f) = Inr [0, 2]" by (simp add: File_try_const_echo)
  have b1: "?zs = (case Some ?zs of None \<Rightarrow> [] | Some os \<Rightarrow> os)" by simp
  have b2: "?zs \<noteq> []" by simp
  have b4: "fst (File_try ''f'' ?zs ?f) = Inr [0, 0]" by (simp add: File_try_const_echo)
  have c1: "[echo_kind 3 7] = (case Some [echo_kind 3 7] of None \<Rightarrow> [] | Some os \<Rightarrow> os)"
    by simp
  have c2: "[echo_kind 3 7] \<noteq> []" by simp
  have c4: "fst (File_try ''f'' [echo_kind 3 7] ?f) = Inr [7]" by (simp add: File_try_echo)
  have m: "Max (set [0, 2 :: int]) = 2" by simp
  from File_max_score [OF a1 a2 h3 a4] m obtain i where i: "i < length ?os"
    "[0, 2 :: int] ! i = 2"
    "File [] (fs_f ''abc'') ''f'' (Some ?os) =
       (case construct (?os ! i) ''f'' (fs_f ''abc'') of
          Inl e \<Rightarrow> Inl e | Inr x \<Rightarrow> Inr (Some x))"
    by auto
  from i(1) have "i = 0 \<or> i = 1" by auto
  with i(2) have "i = 1" by auto
  with i(3) have a: "File [] (fs_f ''abc'') ''f'' (Some ?os) = Inr (Some ''f:abc'')"
    by (simp add: construct_echo)
  have b: "File [] (fs_f ''abc'') ''f'' (Some ?zs) = Inr None"
    using File_max_score [OF b1 b2 h3 b4] by simp
  have c: "File [] (fs_f ''abc'') ''f'' (Some [echo_kind 3 7]) = Inr (Some ''f:abc'')"
    using File_max_score [OF c1 c2 h3 c4] by (simp add: construct_echo)
  from h3 a4 a b4 b c4 c show ?thesis by simp
qed

theorem File_tie_break_witness:
  "file_open (fs_f ''abc'') ''f'' = Inr \<lparr>fo_data = ''abc'', fo_pos = 0, fo_closed = False\<rparr> \<and>
   fst (File_try ''f'' [const_kind 5 1 ''A'', const_kind 3 1 ''B'', const_kind 4 0 ''C'']
          \<lparr>fo_data = ''abc'', fo_pos = 0, fo_closed = False\<rparr>) = Inr [1, 1, 0] \<and>
   0 < Max (set [1, 1, 0 :: int]) \<and>
   File [] (fs_f ''abc'') ''f''
       (Some [const_kind 5 1 ''A'', const_kind 3 1 ''B'', const_kind 4 0 ''C''])
     = Inr (Some ''A'')"
proof -
  let ?f = "\<lparr>fo_data = ''abc'', fo_pos = 0, fo_closed = False\<rparr>"
  let ?os = "[const_kind 5 1 ''A'', const_kind 3 1 ''B'', const_kind 4 0 ''C'']"
  have h1: "?os = (case Some ?os of None \<Rightarrow> [] | Some os \<Rightarrow> os)" by simp
  have h2: "?os \<noteq> []" by simp
  have h3: "file_open (fs_f ''abc'') ''f'' = Inr ?f" by (rule file_open_fs_f)
  have h4: "fst (File_try ''f'' ?os ?f) = Inr [1, 1, 0]"
    by (simp add: File_try_def fo_read_def fo_close_def const_kind_def)
  have h5: "0 < Max (set [1, 1, 0 :: int])" by simp
  from File_tie_break [OF h1 h2 h3 h4 h5] obtain i where i: "i < length ?os"
    "\<forall>j<length ?os. [1, 1, 0 :: int] ! j = Max (set [1, 1, 0])
        \<longrightarrow> kid (?os ! j) \<le> kid (?os ! i)"
    "File [] (fs_f ''abc'') ''f'' (Some ?os) = Kind_return (?os ! i) ''f'' (fs_f ''abc'')"
    by blast
  have z: "0 < length ?os" by simp
  have z1: "[1, 1, 0 :: int] ! 0 = Max (set [1, 1, 0])" by simp
  from i(2) z z1 have "kid (?os ! 0) \<le> kid (?os ! i)" by blast
  then have k5: "5 \<le> kid (?os ! i)" by (simp add: const_kind_def)
  from i(1) have "i = 0 \<or> i = 1 \<or> i = 2" by auto
  with k5 have "i = 0" by (auto simp: const_kind_def)
  with i(3) have "File [] (fs_f ''abc'') ''f'' (Some ?os) = Inr (Some ''A'')"
    by (simp add: Kind_return_const)
  with h3 h4 h5 show ?thesis by blast
qed












text \<open>
  C6: with an empty list of candidates \<^verbatim>\<open>File\<close> returns \<^verbatim>\<open>None\<close> and raises nothing,
  whatever the path and the file system: the file is not even opened.
\<close>

theorem File_no_options: "File defaults fs fname (Some []) = Inr None"
  by (simp add: File_def)

end
